theory Spec2Isabelle
  imports Main "HOL-Library.Sublist"
begin

section \<open>The Slack notifier of screwdriver-notifications-slack (src/index.js)\<close>

text \<open>
  The build data handed to \<^verbatim>\<open>_notify\<close> is a JavaScript object. It is modelled by
  records whose fields are optional wherever the property may be missing (\<open>None\<close> is
  JavaScript's \<^verbatim>\<open>undefined\<close>). The value under \<^verbatim>\<open>settings.slack\<close> has one of the three
  shapes the code tests for with \<^verbatim>\<open>typeof\<close> and \<^verbatim>\<open>Array.isArray\<close>.

  Modelling decisions:
  \<^item> properties carry values of the type the schema names for them (strings, lists of
    strings, a boolean, an integer); the properties below \<^verbatim>\<open>event\<close>, which the schema
    leaves open, are strings when present. Joi's conversion of strings into other types is
    outside the model;
  \<^item> \<^verbatim>\<open>settings\<close> allows unknown keys: \<open>other_keys\<close> holds the names of the keys
    besides \<^verbatim>\<open>slack\<close>, whose values \<^verbatim>\<open>_notify\<close> never reads;
  \<^item> a string is a list of characters; \<^verbatim>\<open>length\<close>, \<^verbatim>\<open>slice\<close> and \<^verbatim>\<open>substring\<close> count them;
  \<^item> \<^verbatim>\<open>Joi.string()\<close> rejects the empty string, \<^verbatim>\<open>Joi.number().integer()\<close> accepts the
    integers a double represents exactly;
  \<^item> reading a property of \<^verbatim>\<open>undefined\<close> raises a \<^verbatim>\<open>TypeError\<close>; \<^verbatim>\<open>undefined\<close> inside a
    template literal prints as \<^verbatim>\<open>undefined\<close>;
  \<^item> \<^verbatim>\<open>_notify\<close> assigns to \<^verbatim>\<open>buildData.settings.slack\<close>, so the model returns the
    caller's object as it is after the call, next to the calls made to the transport and
    the error that propagates, if any.
\<close>

subsection \<open>Build data\<close>

record slack_settings =
  channels :: "string list option"
  statuses :: "string list option"
  minimized :: "bool option"

datatype slack_value =
    SlackString string
  | SlackArray "string list"
  | SlackObject slack_settings

record settings_t =
  slack :: "slack_value option"
  other_keys :: "string list"

record scmRepo_t =
  name :: "string option"

record pipeline_t =
  scmRepo :: "scmRepo_t option"

record build_t =
  build_id :: "int option"

record commit_t =
  commit_message :: "string option"
  commit_url :: "string option"

record event_t =
  sha :: "string option"
  commit :: "commit_t option"
  causeMessage :: "string option"

record buildData =
  settings :: "settings_t option"
  status :: "string option"
  pipeline :: "pipeline_t option"
  jobName :: "string option"
  build :: "build_t option"
  event :: "event_t option"
  buildLink :: "string option"

subsection \<open>The message handed to the transport\<close>

record field_t =
  field_title :: string
  field_value :: string
  field_short :: bool

record attachment =
  fallback :: string
  color :: "string option"
  att_fields :: "field_t list option"
  title :: "string option"
  title_link :: "string option"
  att_text :: "string option"

record slackMessage =
  message :: string
  attachments :: "attachment list"

datatype error = TypeError | TransportError string

text \<open>
  The transport \<^verbatim>\<open>slacker(token, channels, payload)\<close> lives outside this file. It is a
  parameter of the model: \<open>Some e\<close> is the error it throws, \<open>None\<close> a normal return.
\<close>

type_synonym transport = "string \<Rightarrow> string list option \<Rightarrow> slackMessage \<Rightarrow> string option"

record call =
  call_token :: string
  call_channels :: "string list option"
  call_payload :: slackMessage

definition transport_ok :: transport where
  "transport_ok tok chs payload = None"

definition transport_down :: transport where
  "transport_down tok chs payload = Some ''channel_not_found''"

subsection \<open>Lookup tables\<close>

definition COLOR_MAP :: "(string \<times> string) list" where
  "COLOR_MAP =
     [(''SUCCESS'', ''good''),
      (''FAILURE'', ''danger''),
      (''ABORTED'', ''danger''),
      (''RUNNING'', ''#0F69FF''),
      (''QUEUED'', ''#0F69FF'')]"

definition STATUSES_MAP :: "(string \<times> string) list" where
  "STATUSES_MAP =
     [(''SUCCESS'', '':sunny:''),
      (''FAILURE'', '':umbrella:''),
      (''ABORTED'', '':cloud:''),
      (''RUNNING'', '':runner:''),
      (''QUEUED'', '':cyclone:'')]"

definition DEFAULT_STATUSES :: "string list" where
  "DEFAULT_STATUSES = [''FAILURE'']"

subsection \<open>The schemas\<close>

definition required :: "('a \<Rightarrow> bool) \<Rightarrow> 'a option \<Rightarrow> bool" where
  "required P x = (case x of None \<Rightarrow> False | Some v \<Rightarrow> P v)"

definition optional :: "('a \<Rightarrow> bool) \<Rightarrow> 'a option \<Rightarrow> bool" where
  "optional P x = (case x of None \<Rightarrow> True | Some v \<Rightarrow> P v)"

definition joi_string :: "string \<Rightarrow> bool" where
  "joi_string s = (s \<noteq> [])"

definition joi_integer :: "int \<Rightarrow> bool" where
  "joi_integer n = (- 9007199254740991 \<le> n \<and> n \<le> 9007199254740991)"

definition joi_any :: "'a \<Rightarrow> bool" where
  "joi_any x = True"

definition SCHEMA_STATUS :: "string \<Rightarrow> bool" where
  "SCHEMA_STATUS s = (joi_string s \<and> s \<in> set (map fst COLOR_MAP))"

definition SCHEMA_STATUSES :: "string list \<Rightarrow> bool" where
  "SCHEMA_STATUSES ss = (list_all SCHEMA_STATUS ss \<and> 0 \<le> length ss)"

definition SCHEMA_SLACK_CHANNEL :: "string \<Rightarrow> bool" where
  "SCHEMA_SLACK_CHANNEL c = joi_string c"

definition SCHEMA_SLACK_CHANNELS :: "string list \<Rightarrow> bool" where
  "SCHEMA_SLACK_CHANNELS cs = (list_all SCHEMA_SLACK_CHANNEL cs \<and> 1 \<le> length cs)"

definition SCHEMA_SLACK_OBJECT :: "slack_settings \<Rightarrow> bool" where
  "SCHEMA_SLACK_OBJECT so =
     (optional SCHEMA_SLACK_CHANNELS (channels so) \<and>
      optional SCHEMA_STATUSES (statuses so) \<and>
      optional joi_any (minimized so))"

fun SCHEMA_SLACK_VALUE :: "slack_value \<Rightarrow> bool" where
  "SCHEMA_SLACK_VALUE (SlackObject so) = SCHEMA_SLACK_OBJECT so"
| "SCHEMA_SLACK_VALUE (SlackArray cs) = SCHEMA_SLACK_CHANNELS cs"
| "SCHEMA_SLACK_VALUE (SlackString c) = SCHEMA_SLACK_CHANNEL c"

definition SCHEMA_SLACK_SETTINGS :: "settings_t \<Rightarrow> bool" where
  "SCHEMA_SLACK_SETTINGS st = required SCHEMA_SLACK_VALUE (slack st)"

definition SCHEMA_SCM_REPO :: "scmRepo_t \<Rightarrow> bool" where
  "SCHEMA_SCM_REPO r = required joi_string (name r)"

definition SCHEMA_PIPELINE_DATA :: "pipeline_t \<Rightarrow> bool" where
  "SCHEMA_PIPELINE_DATA p = required SCHEMA_SCM_REPO (scmRepo p)"

definition SCHEMA_BUILD :: "build_t \<Rightarrow> bool" where
  "SCHEMA_BUILD b = required joi_integer (build_id b)"

definition SCHEMA_BUILD_DATA :: "buildData \<Rightarrow> bool" where
  "SCHEMA_BUILD_DATA bd =
     (required SCHEMA_SLACK_SETTINGS (settings bd) \<and>
      required SCHEMA_STATUS (status bd) \<and>
      required SCHEMA_PIPELINE_DATA (pipeline bd) \<and>
      optional joi_string (jobName bd) \<and>
      optional SCHEMA_BUILD (build bd) \<and>
      optional joi_any (event bd) \<and>
      optional joi_string (buildLink bd))"

subsection \<open>JavaScript primitives used by \<^verbatim>\<open>_notify\<close>\<close>

text \<open>\<^verbatim>\<open>Object.keys(settings).length\<close>\<close>

definition object_keys_length :: "settings_t \<Rightarrow> nat" where
  "object_keys_length st = (case slack st of None \<Rightarrow> 0 | Some v \<Rightarrow> 1) + length (other_keys st)"

definition is_string :: "slack_value option \<Rightarrow> bool" where
  "is_string v = (case v of Some (SlackString s) \<Rightarrow> True | _ \<Rightarrow> False)"

definition is_array :: "slack_value option \<Rightarrow> bool" where
  "is_array v = (case v of Some (SlackArray l) \<Rightarrow> True | _ \<Rightarrow> False)"

text \<open>\<^verbatim>\<open>statuses.includes(status)\<close>; \<^verbatim>\<open>undefined\<close> is in no list of strings.\<close>

definition js_includes :: "string list \<Rightarrow> string option \<Rightarrow> bool" where
  "js_includes ss s = (case s of None \<Rightarrow> False | Some x \<Rightarrow> x \<in> set ss)"

text \<open>\<^verbatim>\<open>s.split(sep)[0]\<close> for a non-empty separator: the part of \<open>s\<close> before the first \<open>sep\<close>.\<close>

fun split_head :: "string \<Rightarrow> string \<Rightarrow> string" where
  "split_head sep [] = []"
| "split_head sep (c # cs) = (if prefix sep (c # cs) then [] else c # split_head sep cs)"

text \<open>A value inside a template literal.\<close>

definition show_str :: "string option \<Rightarrow> string" where
  "show_str v = (case v of None \<Rightarrow> ''undefined'' | Some s \<Rightarrow> s)"

fun show_nat :: "nat \<Rightarrow> string" where
  "show_nat n =
     (if n < 10 then [''0123456789'' ! n]
      else show_nat (n div 10) @ [''0123456789'' ! (n mod 10)])"

definition show_int :: "int \<Rightarrow> string" where
  "show_int i = (if i < 0 then CHR ''-'' # show_nat (nat (- i)) else show_nat (nat i))"

definition show_num :: "int option \<Rightarrow> string" where
  "show_num v = (case v of None \<Rightarrow> ''undefined'' | Some i \<Rightarrow> show_int i)"

text \<open>JavaScript's truthiness of \<^verbatim>\<open>settings.slack.minimized\<close>.\<close>

definition truthy :: "bool option \<Rightarrow> bool" where
  "truthy v = (case v of Some True \<Rightarrow> True | _ \<Rightarrow> False)"

subsection \<open>\<^verbatim>\<open>_notify\<close>, lines 93 to 106: the settings are put into the structured form\<close>

text \<open>
  The two assignments of the first branch: a string becomes a one-element array, then the
  array becomes the \<^verbatim>\<open>channels\<close> of a new object. Line 104 then reads
  \<^verbatim>\<open>settings.slack.statuses\<close>, which raises when \<^verbatim>\<open>settings.slack\<close> is missing.
\<close>

definition wrap_string :: "slack_value \<Rightarrow> slack_value" where
  "wrap_string v = (case v of SlackString s \<Rightarrow> SlackArray [s] | _ \<Rightarrow> v)"

definition as_channels :: "slack_value \<Rightarrow> string list option" where
  "as_channels v = (case v of SlackArray l \<Rightarrow> Some l | _ \<Rightarrow> None)"

definition normalize_settings :: "settings_t \<Rightarrow> error + settings_t" where
  "normalize_settings st =
     (let st1 =
        (if is_string (slack st) \<or> is_array (slack st) then
           let st' = st\<lparr>slack := map_option wrap_string (slack st)\<rparr>
           in st'\<lparr>slack := Some (SlackObject
                \<lparr>channels = Option.bind (slack st') as_channels,
                 statuses = Some DEFAULT_STATUSES,
                 minimized = Some False\<rparr>)\<rparr>
         else st)
      in case slack st1 of
           Some (SlackObject so) \<Rightarrow>
             if statuses so = None
             then Inr (st1\<lparr>slack := Some (SlackObject (so\<lparr>statuses := Some DEFAULT_STATUSES\<rparr>))\<rparr>)
             else Inr st1
         | _ \<Rightarrow> Inl TypeError)"

text \<open>\<^verbatim>\<open>buildData.settings.slack\<close> once it is an object.\<close>

definition canonical :: "settings_t \<Rightarrow> slack_settings option" where
  "canonical st = (case slack st of Some (SlackObject so) \<Rightarrow> Some so | _ \<Rightarrow> None)"

subsection \<open>\<^verbatim>\<open>_notify\<close>, lines 111 to 151: the message\<close>

definition cutOff :: nat where
  "cutOff = 150"

definition commitMessage :: "string \<Rightarrow> string" where
  "commitMessage m = (if length m > cutOff then take cutOff m @ ''...'' else m)"

text \<open>
  Each \<open>None\<close> that ends in \<open>TypeError\<close> is a property read of \<^verbatim>\<open>undefined\<close>:
  \<^verbatim>\<open>buildLink.split\<close> (line 111), \<^verbatim>\<open>event.sha.slice\<close> (line 112),
  \<^verbatim>\<open>event.commit.message.length\<close> (line 114), \<^verbatim>\<open>pipeline.scmRepo.name\<close> (lines 120 and
  122) and \<^verbatim>\<open>build.id\<close> (lines 131 and 141). Nothing is assigned before the message is
  complete, so the order of the reads does not show.
\<close>

definition render :: "buildData \<Rightarrow> slack_settings \<Rightarrow> error + slackMessage" where
  "render bd so =
     (case buildLink bd of None \<Rightarrow> Inl TypeError | Some link \<Rightarrow>
      case event bd of None \<Rightarrow> Inl TypeError | Some ev \<Rightarrow>
      case sha ev of None \<Rightarrow> Inl TypeError | Some sh \<Rightarrow>
      case commit ev of None \<Rightarrow> Inl TypeError | Some cm \<Rightarrow>
      case commit_message cm of None \<Rightarrow> Inl TypeError | Some msg \<Rightarrow>
      case pipeline bd of None \<Rightarrow> Inl TypeError | Some p \<Rightarrow>
      case scmRepo p of None \<Rightarrow> Inl TypeError | Some repo \<Rightarrow>
      case build bd of None \<Rightarrow> Inl TypeError | Some b \<Rightarrow>
      let pipelineLink = split_head ''/builds'' link;
          truncatedSha = take 6 sh;
          isMinimized = truthy (minimized so);
          msg_text =
            (if isMinimized then
               ''<'' @ pipelineLink @ ''|'' @ show_str (name repo) @ ''#'' @ show_str (jobName bd)
                 @ ''> *'' @ show_str (status bd) @ ''*''
             else
               ''*'' @ show_str (status bd) @ ''* ''
                 @ show_str (Option.bind (status bd) (map_of STATUSES_MAP))
                 @ '' <'' @ pipelineLink @ ''|'' @ show_str (name repo) @ '' ''
                 @ show_str (jobName bd) @ ''>'');
          atts =
            (if isMinimized then
               [\<lparr>fallback = '''',
                 color = Option.bind (status bd) (map_of COLOR_MAP),
                 att_fields = Some
                   [\<lparr>field_title = ''Build'',
                     field_value = ''<'' @ link @ ''|#'' @ show_num (build_id b) @ ''>'',
                     field_short = True\<rparr>],
                 title = None,
                 title_link = None,
                 att_text = None\<rparr>]
             else
               [\<lparr>fallback = '''',
                 color = Option.bind (status bd) (map_of COLOR_MAP),
                 att_fields = None,
                 title = Some (''#'' @ show_num (build_id b)),
                 title_link = Some link,
                 att_text = Some
                   (commitMessage msg @ '' (<'' @ show_str (commit_url cm) @ ''|'' @ truncatedSha
                      @ ''>)'' @ [CHR 0x0A] @ show_str (causeMessage ev))\<rparr>])
      in Inr \<lparr>message = msg_text, attachments = atts\<rparr>)"

subsection \<open>\<^verbatim>\<open>_notify\<close>\<close>

definition notify :: "transport \<Rightarrow> string \<Rightarrow> buildData \<Rightarrow> buildData \<times> call list \<times> error option" where
  "notify slacker token bd =
     (if \<not> SCHEMA_BUILD_DATA bd then (bd, [], None)
      else case settings bd of None \<Rightarrow> (bd, [], Some TypeError) | Some st \<Rightarrow>
        if object_keys_length st = 0 then (bd, [], None)
        else case normalize_settings st of Inl e \<Rightarrow> (bd, [], Some e) | Inr st1 \<Rightarrow>
          let bd1 = bd\<lparr>settings := Some st1\<rparr> in
          case canonical st1 of None \<Rightarrow> (bd1, [], Some TypeError) | Some so \<Rightarrow>
          case statuses so of None \<Rightarrow> (bd1, [], Some TypeError) | Some ss \<Rightarrow>
            if \<not> js_includes ss (status bd1) then (bd1, [], None)
            else case render bd1 so of Inl e \<Rightarrow> (bd1, [], Some e) | Inr payload \<Rightarrow>
              (bd1,
               [\<lparr>call_token = token, call_channels = channels so, call_payload = payload\<rparr>],
               map_option TransportError (slacker token (channels so) payload)))"

text \<open>
  The canonical settings of an event: what \<^verbatim>\<open>buildData.settings.slack\<close> holds once
  lines 93 to 106 have run.
\<close>

definition effective :: "buildData \<Rightarrow> slack_settings option" where
  "effective bd =
     (case settings bd of None \<Rightarrow> None | Some st \<Rightarrow>
      case normalize_settings st of Inl e \<Rightarrow> None | Inr st1 \<Rightarrow> canonical st1)"

text \<open>
  The properties that lines 111 to 116 and the two attachments read without a test, and
  that the schema does not require: \<^verbatim>\<open>buildLink\<close>, \<^verbatim>\<open>build\<close>, \<^verbatim>\<open>event.sha\<close> and
  \<^verbatim>\<open>event.commit.message\<close>.
\<close>

definition has_render_fields :: "buildData \<Rightarrow> bool" where
  "has_render_fields bd =
     (buildLink bd \<noteq> None \<and> build bd \<noteq> None \<and>
      (case event bd of None \<Rightarrow> False | Some ev \<Rightarrow>
         sha ev \<noteq> None \<and>
         (case commit ev of None \<Rightarrow> False | Some cm \<Rightarrow> commit_message cm \<noteq> None)))"

definition state_after :: "buildData \<times> call list \<times> error option \<Rightarrow> buildData" where
  "state_after r = fst r"

definition calls_of :: "buildData \<times> call list \<times> error option \<Rightarrow> call list" where
  "calls_of r = fst (snd r)"

definition raised :: "buildData \<times> call list \<times> error option \<Rightarrow> error option" where
  "raised r = snd (snd r)"

subsection \<open>Sample events\<close>

text \<open>
  \<open>ex_general\<close> is a failed build of a pipeline configured with the single channel
  \<^verbatim>\<open>#general\<close> and a commit message of 200 characters; \<open>ex_minimized\<close> is a successful
  build configured with two channels, the status \<^verbatim>\<open>SUCCESS\<close> and the minimized layout.
\<close>

definition ex_commit :: commit_t where
  "ex_commit =
     \<lparr>commit_message = Some (replicate 200 (CHR ''a'')),
      commit_url = Some ''https://git.example.com/ui/commit/9af3c2e1''\<rparr>"

definition ex_event :: event_t where
  "ex_event =
     \<lparr>sha = Some ''9af3c2e17b'',
      commit = Some ex_commit,
      causeMessage = Some ''Merged by batman''\<rparr>"

definition ex_general :: buildData where
  "ex_general =
     \<lparr>settings = Some \<lparr>slack = Some (SlackString ''#general''), other_keys = [''email'']\<rparr>,
      status = Some ''FAILURE'',
      pipeline = Some \<lparr>scmRepo = Some \<lparr>name = Some ''screwdriver-cd/ui''\<rparr>\<rparr>,
      jobName = Some ''main'',
      build = Some \<lparr>build_id = Some 345\<rparr>,
      event = Some ex_event,
      buildLink = Some ''https://cd.example.com/pipelines/12/builds/345''\<rparr>"

definition ex_two_channels :: slack_settings where
  "ex_two_channels =
     \<lparr>channels = Some [''#a'', ''#b''], statuses = Some [''SUCCESS''], minimized = Some True\<rparr>"

definition ex_minimized :: buildData where
  "ex_minimized =
     ex_general
       \<lparr>settings := Some \<lparr>slack = Some (SlackObject ex_two_channels), other_keys = []\<rparr>,
        status := Some ''SUCCESS''\<rparr>"

definition ex_running :: buildData where
  "ex_running =
     ex_general
       \<lparr>settings := Some \<lparr>slack = Some (SlackArray [''#builds'']), other_keys = []\<rparr>,
        status := Some ''RUNNING''\<rparr>"

definition ex_opt_out :: buildData where
  "ex_opt_out =
     ex_general
       \<lparr>settings := Some
          \<lparr>slack = Some (SlackObject
             \<lparr>channels = Some [''#a''], statuses = Some [], minimized = None\<rparr>),
           other_keys = []\<rparr>\<rparr>"

definition ex_no_event :: buildData where
  "ex_no_event = ex_general\<lparr>event := None\<rparr>"

definition ex_no_buildLink :: buildData where
  "ex_no_buildLink = ex_general\<lparr>buildLink := None\<rparr>"

definition ex_minimized_no_event :: buildData where
  "ex_minimized_no_event = ex_minimized\<lparr>event := None\<rparr>"

definition ex_minimized_empty_event :: buildData where
  "ex_minimized_empty_event =
     ex_minimized\<lparr>event := Some \<lparr>sha = None, commit = None, causeMessage = None\<rparr>\<rparr>"

section \<open>Properties of the parts\<close>

subsection \<open>Normalisation of the settings\<close>

lemma normalize_string:
  "slack st = Some (SlackString s) \<Longrightarrow>
   normalize_settings st = Inr (st\<lparr>slack := Some (SlackObject
     \<lparr>channels = Some [s], statuses = Some DEFAULT_STATUSES, minimized = Some False\<rparr>)\<rparr>)"
  by (simp add: normalize_settings_def is_string_def is_array_def wrap_string_def as_channels_def)

lemma normalize_array:
  "slack st = Some (SlackArray l) \<Longrightarrow>
   normalize_settings st = Inr (st\<lparr>slack := Some (SlackObject
     \<lparr>channels = Some l, statuses = Some DEFAULT_STATUSES, minimized = Some False\<rparr>)\<rparr>)"
  by (simp add: normalize_settings_def is_string_def is_array_def wrap_string_def as_channels_def)

lemma normalize_object:
  "slack st = Some (SlackObject so) \<Longrightarrow>
   normalize_settings st =
     Inr (if statuses so = None
          then st\<lparr>slack := Some (SlackObject (so\<lparr>statuses := Some DEFAULT_STATUSES\<rparr>))\<rparr>
          else st)"
  by (simp add: normalize_settings_def is_string_def is_array_def)

lemma normalize_missing:
  "slack st = None \<Longrightarrow> normalize_settings st = Inl TypeError"
  by (simp add: normalize_settings_def is_string_def is_array_def)

lemma normalize_shape:
  assumes "slack st = Some v"
  shows "\<exists>so. normalize_settings st = Inr (st\<lparr>slack := Some (SlackObject so)\<rparr>) \<and> statuses so \<noteq> None"
proof (cases v)
  case (SlackString s)
  with assms have "normalize_settings st = Inr (st\<lparr>slack := Some (SlackObject
     \<lparr>channels = Some [s], statuses = Some DEFAULT_STATUSES, minimized = Some False\<rparr>)\<rparr>)"
    by (simp add: normalize_string)
  then show ?thesis by fastforce
next
  case (SlackArray l)
  with assms have "normalize_settings st = Inr (st\<lparr>slack := Some (SlackObject
     \<lparr>channels = Some l, statuses = Some DEFAULT_STATUSES, minimized = Some False\<rparr>)\<rparr>)"
    by (simp add: normalize_array)
  then show ?thesis by fastforce
next
  case (SlackObject so)
  show ?thesis
  proof (cases "statuses so")
    case None
    with assms SlackObject
    have "normalize_settings st =
        Inr (st\<lparr>slack := Some (SlackObject (so\<lparr>statuses := Some DEFAULT_STATUSES\<rparr>))\<rparr>)"
      by (simp add: normalize_object)
    then show ?thesis by fastforce
  next
    case (Some ss)
    with assms SlackObject
    have "normalize_settings st = Inr (st\<lparr>slack := Some (SlackObject so)\<rparr>)"
      by (simp add: normalize_object)
    with Some show ?thesis by blast
  qed
qed

lemma normalize_idem:
  assumes "normalize_settings st = Inr st1"
  shows "normalize_settings st1 = Inr st1"
proof (cases "slack st")
  case None
  with assms show ?thesis by (simp add: normalize_missing)
next
  case (Some v)
  from normalize_shape [OF Some] assms obtain so where
    st1: "st1 = st\<lparr>slack := Some (SlackObject so)\<rparr>" and so: "statuses so \<noteq> None"
    by auto
  then show ?thesis by (auto simp: normalize_object)
qed

lemma default_statuses_valid: "SCHEMA_STATUSES DEFAULT_STATUSES"
  by (simp add: SCHEMA_STATUSES_def DEFAULT_STATUSES_def SCHEMA_STATUS_def joi_string_def
      COLOR_MAP_def)

lemma normalize_valid:
  assumes "SCHEMA_SLACK_SETTINGS st" and "normalize_settings st = Inr st1"
  shows "SCHEMA_SLACK_SETTINGS st1"
proof -
  from assms(1) obtain v where v: "slack st = Some v" and ok: "SCHEMA_SLACK_VALUE v"
    by (auto simp: SCHEMA_SLACK_SETTINGS_def required_def split: option.splits)
  show ?thesis
  proof (cases v)
    case (SlackString s)
    with v ok assms(2) default_statuses_valid show ?thesis
      by (auto simp: normalize_string SCHEMA_SLACK_SETTINGS_def required_def
          SCHEMA_SLACK_OBJECT_def optional_def SCHEMA_SLACK_CHANNELS_def joi_any_def)
  next
    case (SlackArray l)
    with v ok assms(2) default_statuses_valid show ?thesis
      by (auto simp: normalize_array SCHEMA_SLACK_SETTINGS_def required_def
          SCHEMA_SLACK_OBJECT_def optional_def joi_any_def)
  next
    case (SlackObject ob)
    with v ok assms(2) default_statuses_valid show ?thesis
      by (auto simp: normalize_object SCHEMA_SLACK_SETTINGS_def required_def
          SCHEMA_SLACK_OBJECT_def optional_def joi_any_def split: if_splits)
  qed
qed

subsection \<open>The gates of \<^verbatim>\<open>_notify\<close>\<close>

lemma notify_invalid:
  "\<not> SCHEMA_BUILD_DATA bd \<Longrightarrow> notify slacker token bd = (bd, [], None)"
  by (simp add: notify_def)

lemma valid_settings:
  assumes "SCHEMA_BUILD_DATA bd"
  obtains st v where "settings bd = Some st" and "slack st = Some v"
    and "SCHEMA_SLACK_VALUE v" and "object_keys_length st \<noteq> 0"
  using assms
  by (auto simp: SCHEMA_BUILD_DATA_def SCHEMA_SLACK_SETTINGS_def required_def
      object_keys_length_def split: option.splits)

lemma valid_pipeline:
  assumes "SCHEMA_BUILD_DATA bd"
  obtains p r n where "pipeline bd = Some p" and "scmRepo p = Some r" and "name r = Some n"
  using assms
  by (auto simp: SCHEMA_BUILD_DATA_def SCHEMA_PIPELINE_DATA_def SCHEMA_SCM_REPO_def required_def
      split: option.splits)

lemma effective_Some:
  assumes "effective bd = Some so"
  obtains st st1 where "settings bd = Some st" and "normalize_settings st = Inr st1"
    and "canonical st1 = Some so"
  using assms by (auto simp: effective_def split: option.splits sum.splits)

lemma notify_valid:
  assumes "SCHEMA_BUILD_DATA bd" and "settings bd = Some st" and "normalize_settings st = Inr st1"
    and "canonical st1 = Some so" and "statuses so = Some ss"
  shows "notify slacker token bd =
     (if \<not> js_includes ss (status bd) then (bd\<lparr>settings := Some st1\<rparr>, [], None)
      else case render (bd\<lparr>settings := Some st1\<rparr>) so of
          Inl e \<Rightarrow> (bd\<lparr>settings := Some st1\<rparr>, [], Some e)
        | Inr payload \<Rightarrow>
            (bd\<lparr>settings := Some st1\<rparr>,
             [\<lparr>call_token = token, call_channels = channels so, call_payload = payload\<rparr>],
             map_option TransportError (slacker token (channels so) payload)))"
proof -
  from assms(1,2) have "object_keys_length st \<noteq> 0"
    by (auto elim: valid_settings)
  with assms show ?thesis
    by (simp add: notify_def Let_def)
qed

lemma valid_after_normalize:
  assumes "SCHEMA_BUILD_DATA bd" and "settings bd = Some st"
    and "normalize_settings st = Inr st1"
  shows "SCHEMA_BUILD_DATA (bd\<lparr>settings := Some st1\<rparr>)"
proof -
  from assms(1,2) have "SCHEMA_SLACK_SETTINGS st"
    by (simp add: SCHEMA_BUILD_DATA_def required_def)
  then have "SCHEMA_SLACK_SETTINGS st1"
    using assms(3) by (rule normalize_valid)
  with assms(1) show ?thesis
    by (simp add: SCHEMA_BUILD_DATA_def required_def)
qed

lemma valid_normalizes:
  assumes "SCHEMA_BUILD_DATA bd"
  obtains st st1 so ss where "settings bd = Some st" and "normalize_settings st = Inr st1"
    and "canonical st1 = Some so" and "statuses so = Some ss"
    and "other_keys st1 = other_keys st"
proof -
  from assms obtain st v where st: "settings bd = Some st" and v: "slack st = Some v"
    by (auto elim: valid_settings)
  from normalize_shape [OF v] obtain so where
    norm: "normalize_settings st = Inr (st\<lparr>slack := Some (SlackObject so)\<rparr>)"
    and "statuses so \<noteq> None"
    by blast
  then obtain ss where ss: "statuses so = Some ss"
    by auto
  show thesis
    by (rule that [OF st norm _ ss]) (simp_all add: canonical_def)
qed

lemma notify_state:
  assumes "SCHEMA_BUILD_DATA bd" and "settings bd = Some st"
    and "normalize_settings st = Inr st1"
  shows "state_after (notify slacker token bd) = bd\<lparr>settings := Some st1\<rparr>"
proof -
  from assms(1) obtain st' st1' so ss where
    "settings bd = Some st'" "normalize_settings st' = Inr st1'"
    "canonical st1' = Some so" "statuses so = Some ss"
    by (rule valid_normalizes)
  with assms(2,3) have can: "canonical st1 = Some so" and ss: "statuses so = Some ss"
    by simp_all
  show ?thesis
    unfolding notify_valid [OF assms(1,2,3) can ss]
    by (simp add: state_after_def split: sum.splits)
qed

lemma status_maps:
  assumes "SCHEMA_STATUS s"
  obtains emoji col where "map_of STATUSES_MAP s = Some emoji" and "map_of COLOR_MAP s = Some col"
  using assms by (auto simp: SCHEMA_STATUS_def COLOR_MAP_def STATUSES_MAP_def)

lemma valid_build:
  assumes "SCHEMA_BUILD_DATA bd" and "build bd = Some b"
  obtains n where "build_id b = Some n"
  using assms
  by (auto simp: SCHEMA_BUILD_DATA_def SCHEMA_BUILD_def optional_def required_def
      split: option.splits)

subsection \<open>The message\<close>

lemma split_head_append:
  "\<exists>rest. s = split_head sep s @ rest \<and> (rest = [] \<or> prefix sep rest)"
  by (induction s) auto

lemma split_head_first:
  "i < length (split_head sep s) \<Longrightarrow> \<not> prefix sep (drop i s)"
proof (induction s arbitrary: i)
  case Nil
  then show ?case by simp
next
  case (Cons c cs)
  then show ?case
    by (cases i) (auto split: if_splits)
qed

lemma truthy_iff: "truthy v \<longleftrightarrow> v = Some True"
  by (auto simp: truthy_def split: option.splits bool.splits)

lemma render_ignores_settings: "render (bd\<lparr>settings := x\<rparr>) so = render bd so"
  by (simp add: render_def Let_def split: option.splits)

lemma render_minimized:
  assumes "buildLink bd = Some link" and "event bd = Some ev" and "sha ev = Some sh"
    and "commit ev = Some cm" and "commit_message cm = Some m"
    and "pipeline bd = Some p" and "scmRepo p = Some r" and "build bd = Some b"
    and "minimized so = Some True"
  shows "render bd so = Inr
    \<lparr>message = ''<'' @ split_head ''/builds'' link @ ''|'' @ show_str (name r) @ ''#''
        @ show_str (jobName bd) @ ''> *'' @ show_str (status bd) @ ''*'',
     attachments =
       [\<lparr>fallback = [], color = Option.bind (status bd) (map_of COLOR_MAP),
         att_fields = Some
           [\<lparr>field_title = ''Build'',
             field_value = ''<'' @ link @ ''|#'' @ show_num (build_id b) @ ''>'',
             field_short = True\<rparr>],
         title = None, title_link = None, att_text = None\<rparr>]\<rparr>"
  using assms by (simp add: render_def truthy_iff)

lemma render_full:
  assumes "buildLink bd = Some link" and "event bd = Some ev" and "sha ev = Some sh"
    and "commit ev = Some cm" and "commit_message cm = Some m"
    and "pipeline bd = Some p" and "scmRepo p = Some r" and "build bd = Some b"
    and "minimized so \<noteq> Some True"
  shows "render bd so = Inr
    \<lparr>message = ''*'' @ show_str (status bd) @ ''* ''
        @ show_str (Option.bind (status bd) (map_of STATUSES_MAP))
        @ '' <'' @ split_head ''/builds'' link @ ''|'' @ show_str (name r) @ '' ''
        @ show_str (jobName bd) @ ''>'',
     attachments =
       [\<lparr>fallback = [], color = Option.bind (status bd) (map_of COLOR_MAP),
         att_fields = None,
         title = Some (''#'' @ show_num (build_id b)),
         title_link = Some link,
         att_text = Some
           (commitMessage m @ '' (<'' @ show_str (commit_url cm) @ ''|'' @ take 6 sh
              @ ''>)'' @ [CHR 0x0A] @ show_str (causeMessage ev))\<rparr>]\<rparr>"
  using assms by (simp add: render_def truthy_iff)

lemma render_fails:
  "\<not> has_render_fields bd \<Longrightarrow> render bd so = Inl TypeError"
  by (auto simp: has_render_fields_def render_def split: option.splits)

lemma render_succeeds:
  assumes "has_render_fields bd" and "pipeline bd = Some p" and "scmRepo p = Some r"
  shows "\<exists>payload. render bd so = Inr payload"
  using assms
  by (auto simp: has_render_fields_def render_def Let_def split: option.splits)

lemma notify_dispatch:
  assumes "SCHEMA_BUILD_DATA bd" and "effective bd = Some so" and "statuses so = Some ss"
    and "status bd = Some s" and "s \<in> set ss" and "render bd so = Inr payload"
  shows "calls_of (notify slacker token bd) =
      [\<lparr>call_token = token, call_channels = channels so, call_payload = payload\<rparr>]"
    and "raised (notify slacker token bd) =
      map_option TransportError (slacker token (channels so) payload)"
proof -
  from assms(2) obtain st st1 where
    st: "settings bd = Some st" and norm: "normalize_settings st = Inr st1"
    and can: "canonical st1 = Some so"
    by (rule effective_Some)
  from assms(4,5) have inc: "js_includes ss (status bd)"
    by (simp add: js_includes_def)
  from assms(6) have r: "render (bd\<lparr>settings := Some st1\<rparr>) so = Inr payload"
    by (simp add: render_ignores_settings)
  show "calls_of (notify slacker token bd) =
      [\<lparr>call_token = token, call_channels = channels so, call_payload = payload\<rparr>]"
    unfolding notify_valid [OF assms(1) st norm can assms(3)]
    using inc r by (simp add: calls_of_def)
  show "raised (notify slacker token bd) =
      map_option TransportError (slacker token (channels so) payload)"
    unfolding notify_valid [OF assms(1) st norm can assms(3)]
    using inc r by (simp add: raised_def)
qed

section \<open>The claims\<close>

subsection \<open>C1: which errors leave \<^verbatim>\<open>_notify\<close>\<close>

text \<open>
  The \<^verbatim>\<open>try\<close> of lines 85 to 89 catches what the schema rejects, and nothing else is
  caught. An error leaves \<open>notify\<close> exactly when the transport throws, or when the event
  passed the schema and the status filter but lacks a property that lines 111 to 147 read.
\<close>

lemma notify_TypeError_iff:
  "raised (notify slacker token bd) = Some TypeError \<longleftrightarrow>
     SCHEMA_BUILD_DATA bd \<and>
     (\<exists>so ss. effective bd = Some so \<and> statuses so = Some ss \<and> js_includes ss (status bd)) \<and>
     \<not> has_render_fields bd"
proof (cases "SCHEMA_BUILD_DATA bd")
  case False
  then show ?thesis
    by (simp add: notify_invalid raised_def)
next
  case True
  then obtain st st1 so ss where st: "settings bd = Some st"
    and norm: "normalize_settings st = Inr st1"
    and can: "canonical st1 = Some so" and ss: "statuses so = Some ss"
    by (rule valid_normalizes)
  from st norm can have eff: "effective bd = Some so"
    by (simp add: effective_def)
  from True obtain p r n where p: "pipeline bd = Some p" and r: "scmRepo p = Some r"
    and "name r = Some n"
    by (rule valid_pipeline)
  note unf = notify_valid [OF True st norm can ss, of slacker token]
  show ?thesis
  proof (cases "js_includes ss (status bd)")
    case False
    with True eff ss show ?thesis
      by (simp add: unf raised_def)
  next
    case inc: True
    show ?thesis
    proof (cases "has_render_fields bd")
      case False
      then have "render (bd\<lparr>settings := Some st1\<rparr>) so = Inl TypeError"
        by (simp add: render_ignores_settings render_fails)
      with True eff ss inc False show ?thesis
        by (simp add: unf raised_def)
    next
      case True
      with p r obtain payload where "render bd so = Inr payload"
        using render_succeeds by blast
      then have "render (bd\<lparr>settings := Some st1\<rparr>) so = Inr payload"
        by (simp add: render_ignores_settings)
      with True inc show ?thesis
        by (auto simp: unf raised_def)
    qed
  qed
qed

text \<open>
  Claim C1 says that validation, normalisation, status filtering and rendering never raise an
  error to the caller of \<open>notify\<close>, so that only an error of the transport can propagate.
  The code does not do that: \<open>ex_no_event\<close>, a failed build without the optional \<^verbatim>\<open>event\<close>
  property, is accepted by \<^verbatim>\<open>SCHEMA_BUILD_DATA\<close>, passes the status filter, and line 112
  (\<^verbatim>\<open>buildData.event.sha.slice(0, 6)\<close>) raises a \<^verbatim>\<open>TypeError\<close> before the transport is called.
\<close>

theorem notify_raises_without_event:
  "SCHEMA_BUILD_DATA ex_no_event \<and>
   calls_of (notify transport_ok ''xoxb-1'' ex_no_event) = [] \<and>
   raised (notify transport_ok ''xoxb-1'' ex_no_event) = Some TypeError"
  by code_simp

subsection \<open>C2: an event without \<^verbatim>\<open>buildLink\<close>\<close>

text \<open>
  What the schema marks \<^verbatim>\<open>required()\<close> is \<^verbatim>\<open>settings\<close> with its \<^verbatim>\<open>slack\<close> key,
  \<^verbatim>\<open>status\<close> and \<^verbatim>\<open>pipeline.scmRepo.name\<close>; an event without one of them is dropped without
  a call and without an error.
\<close>

lemma missing_required_field_is_dropped:
  assumes "settings bd = None \<or> status bd = None \<or> pipeline bd = None \<or>
    Option.bind (settings bd) slack = None \<or>
    Option.bind (Option.bind (pipeline bd) scmRepo) name = None"
  shows "notify slacker token bd = (bd, [], None)"
proof -
  from assms have "\<not> SCHEMA_BUILD_DATA bd"
    by (auto simp: SCHEMA_BUILD_DATA_def SCHEMA_SLACK_SETTINGS_def SCHEMA_PIPELINE_DATA_def
        SCHEMA_SCM_REPO_def required_def split: option.splits)
  then show ?thesis
    by (rule notify_invalid)
qed

text \<open>
  Claim C2 says that an event that lacks a required field, in particular one with valid
  settings and status but no \<^verbatim>\<open>buildLink\<close>, is dropped silently at the validation gate. The
  code does not do that for \<^verbatim>\<open>buildLink\<close>: line 59 declares it \<^verbatim>\<open>Joi.string()\<close> without
  \<^verbatim>\<open>required()\<close>, so \<open>ex_no_buildLink\<close> passes the gate and the status filter, and line 111
  (\<^verbatim>\<open>buildData.buildLink.split\<close>) raises a \<^verbatim>\<open>TypeError\<close> to the caller.
\<close>

theorem notify_raises_without_buildLink:
  "buildLink ex_no_buildLink = None \<and>
   SCHEMA_BUILD_DATA ex_no_buildLink \<and>
   calls_of (notify transport_ok ''xoxb-1'' ex_no_buildLink) = [] \<and>
   raised (notify transport_ok ''xoxb-1'' ex_no_buildLink) = Some TypeError"
  by code_simp

subsection \<open>C3: what \<^verbatim>\<open>_notify\<close> writes into the caller's event\<close>

text \<open>
  Claim C3 says that a call of \<open>notify\<close> leaves the caller's event unchanged. Lines 95 to
  105 assign to \<^verbatim>\<open>buildData.settings.slack\<close>, which is the caller's object: after the call
  on \<open>ex_general\<close> the channel string \<^verbatim>\<open>#general\<close> has been replaced by the structured
  object.
\<close>

theorem notify_mutates_settings:
  "state_after (notify transport_ok ''xoxb-1'' ex_general) \<noteq> ex_general"
  by code_simp

text \<open>
  C3 as amended: \<open>notify\<close> changes nothing of the caller's event but the value under
  \<^verbatim>\<open>settings.slack\<close>. An event that fails the schema is left as it is; in an event that
  passes, \<^verbatim>\<open>settings.slack\<close> holds the canonical settings after the call, whatever the status
  is, and every other property is what it was. An event whose \<^verbatim>\<open>settings.slack\<close> is
  already a structured object with \<^verbatim>\<open>statuses\<close> is left as it is.
\<close>

theorem notify_changes_only_slack:
  "state_after (notify slacker token bd) =
     (if SCHEMA_BUILD_DATA bd
      then bd\<lparr>settings :=
             map_option (\<lambda>st. st\<lparr>slack := map_option SlackObject (effective bd)\<rparr>) (settings bd)\<rparr>
      else bd) \<and>
   (\<forall>st so. settings bd = Some st \<and> slack st = Some (SlackObject so) \<and> statuses so \<noteq> None
      \<longrightarrow> state_after (notify slacker token bd) = bd)"
proof (cases "SCHEMA_BUILD_DATA bd")
  case False
  then have "state_after (notify slacker token bd) = bd"
    by (simp add: notify_invalid state_after_def)
  with False show ?thesis by simp
next
  case True
  then obtain st v where st: "settings bd = Some st" and v: "slack st = Some v"
    by (auto elim: valid_settings)
  from normalize_shape [OF v] obtain so where
    norm: "normalize_settings st = Inr (st\<lparr>slack := Some (SlackObject so)\<rparr>)"
    by blast
  have post: "state_after (notify slacker token bd) =
      bd\<lparr>settings := Some (st\<lparr>slack := Some (SlackObject so)\<rparr>)\<rparr>"
    using True st norm by (rule notify_state)
  from st norm have eff: "effective bd = Some so"
    by (simp add: effective_def canonical_def)
  have same: "bd\<lparr>settings := Some (st\<lparr>slack := Some (SlackObject so)\<rparr>)\<rparr> = bd"
    if "slack st = Some (SlackObject ob)" and "statuses ob \<noteq> None" for ob
  proof -
    from that norm have "st\<lparr>slack := Some (SlackObject so)\<rparr> = st"
      by (auto simp: normalize_object)
    with st show ?thesis by simp
  qed
  from True st eff same show ?thesis
    unfolding post by auto
qed

theorem notify_changes_only_slack_witness:
  "state_after (notify transport_ok ''xoxb-1'' ex_minimized) = ex_minimized"
proof -
  have st: "settings ex_minimized =
      Some \<lparr>slack = Some (SlackObject ex_two_channels), other_keys = []\<rparr>"
    by (simp add: ex_minimized_def)
  have ss: "statuses ex_two_channels \<noteq> None"
    by (simp add: ex_two_channels_def)
  have "\<forall>st so. settings ex_minimized = Some st \<and> slack st = Some (SlackObject so) \<and>
      statuses so \<noteq> None
      \<longrightarrow> state_after (notify transport_ok ''xoxb-1'' ex_minimized) = ex_minimized"
    using notify_changes_only_slack [of transport_ok "''xoxb-1''" ex_minimized]
    by (rule conjunct2)
  with st ss show ?thesis
    by simp
qed

subsection \<open>C4: the canonical settings\<close>

text \<open>
  Claim C4: for each of the three shapes of \<^verbatim>\<open>settings.slack\<close>, normalisation yields a
  structured object. Its channels are \<open>[s]\<close> for a channel string \<open>s\<close>, the list itself for a
  list of channels, and the channels of a structured object, in their order; its statuses
  are those of a structured object that has some and \<^verbatim>\<open>DEFAULT_STATUSES\<close>, the list
  \<^verbatim>\<open>['FAILURE']\<close>, otherwise; its minimized flag is \<open>False\<close> for a string and for a list.
  No assumption on the channels is needed: the statement holds for every value of the three
  shapes, whether the schema accepts it or not.
\<close>

theorem normalization_canonical:
  assumes "settings bd = Some st" and "slack st = Some v"
  shows "\<exists>so. effective bd = Some so \<and>
    channels so = (case v of SlackString s \<Rightarrow> Some [s] | SlackArray l \<Rightarrow> Some l
                   | SlackObject ob \<Rightarrow> channels ob) \<and>
    statuses so = (case v of
                     SlackObject ob \<Rightarrow>
                       (case statuses ob of None \<Rightarrow> Some [''FAILURE''] | Some ss \<Rightarrow> Some ss)
                   | _ \<Rightarrow> Some [''FAILURE'']) \<and>
    minimized so = (case v of SlackObject ob \<Rightarrow> minimized ob | _ \<Rightarrow> Some False)"
proof (cases v)
  case (SlackString s)
  with assms show ?thesis
    by (simp add: effective_def normalize_string canonical_def DEFAULT_STATUSES_def)
next
  case (SlackArray l)
  with assms show ?thesis
    by (simp add: effective_def normalize_array canonical_def DEFAULT_STATUSES_def)
next
  case (SlackObject ob)
  with assms show ?thesis
    by (cases "statuses ob")
      (simp_all add: effective_def normalize_object canonical_def DEFAULT_STATUSES_def)
qed

theorem normalization_canonical_witness:
  "effective ex_general =
     Some \<lparr>channels = Some [''#general''], statuses = Some [''FAILURE''],
           minimized = Some False\<rparr>"
proof -
  have st: "settings ex_general =
      Some \<lparr>slack = Some (SlackString ''#general''), other_keys = [''email'']\<rparr>"
    by (simp add: ex_general_def)
  have v: "slack \<lparr>slack = Some (SlackString ''#general''), other_keys = [''email'']\<rparr> =
      Some (SlackString ''#general'')"
    by simp
  from normalization_canonical [OF st v] show ?thesis
    by auto
qed

subsection \<open>C5: the status filter\<close>

text \<open>
  Claim C5: when an event passes the schema and its status is not among the statuses of its
  canonical settings, \<open>notify\<close> makes no call to the transport and raises no error.
\<close>

theorem status_filter_no_dispatch:
  assumes "SCHEMA_BUILD_DATA bd"
    and "effective bd = Some so" and "statuses so = Some ss"
    and "status bd = Some s" and "s \<notin> set ss"
  shows "calls_of (notify slacker token bd) = [] \<and> raised (notify slacker token bd) = None"
proof -
  from assms(2) obtain st st1 where
    st: "settings bd = Some st" and norm: "normalize_settings st = Inr st1"
    and can: "canonical st1 = Some so"
    by (rule effective_Some)
  note notify_valid [OF assms(1) st norm can assms(3), of slacker token]
  moreover from assms(4,5) have "\<not> js_includes ss (status bd)"
    by (simp add: js_includes_def)
  ultimately show ?thesis
    by (simp add: calls_of_def raised_def)
qed

theorem status_filter_no_dispatch_witness:
  "calls_of (notify transport_down ''xoxb-1'' ex_running) = [] \<and>
   raised (notify transport_down ''xoxb-1'' ex_running) = None"
proof -
  have valid: "SCHEMA_BUILD_DATA ex_running"
    by code_simp
  have eff: "effective ex_running =
      Some \<lparr>channels = Some [''#builds''], statuses = Some [''FAILURE''],
            minimized = Some False\<rparr>"
    by code_simp
  have ss: "statuses \<lparr>channels = Some [''#builds''], statuses = Some [''FAILURE''],
      minimized = Some False\<rparr> = Some [''FAILURE'']"
    by simp
  have s: "status ex_running = Some ''RUNNING''"
    by (simp add: ex_running_def)
  have out: "''RUNNING'' \<notin> set [''FAILURE'']"
    by simp
  show ?thesis
    by (rule status_filter_no_dispatch [OF valid eff ss s out])
qed

subsection \<open>C6: the commit message is cut off at 150 characters\<close>

text \<open>
  Claim C6: in the full layout, the text of the attachment starts with the commit message
  \<open>m\<close> itself when \<open>m\<close> has at most 150 characters, and with the first 150 characters of
  \<open>m\<close> followed by three dots when \<open>m\<close> is longer. The rest of the text, the link to the
  commit and the cause message, is the same in both cases. The event is one that is
  rendered: it passes the schema and the status filter and carries \<^verbatim>\<open>buildLink\<close>,
  \<^verbatim>\<open>build\<close>, \<^verbatim>\<open>event.sha\<close> and the commit message \<open>m\<close>.
\<close>

theorem commit_message_cut_off:
  assumes "SCHEMA_BUILD_DATA bd" and "effective bd = Some so" and "statuses so = Some ss"
    and "status bd = Some s" and "s \<in> set ss"
    and "buildLink bd = Some link" and "build bd = Some b"
    and "event bd = Some ev" and "sha ev = Some sh"
    and "commit ev = Some cm" and "commit_message cm = Some m"
    and "minimized so \<noteq> Some True"
  shows "\<exists>a.
    map (attachments \<circ> call_payload) (calls_of (notify slacker token bd)) = [[a]] \<and>
    (150 < length m \<longrightarrow>
       length (take 150 m) = 150 \<and>
       att_text a = Some
         (take 150 m @ ''...'' @ '' (<'' @ show_str (commit_url cm) @ ''|'' @ take 6 sh
            @ ''>)'' @ [CHR 0x0A] @ show_str (causeMessage ev))) \<and>
    (length m \<le> 150 \<longrightarrow>
       att_text a = Some
         (m @ '' (<'' @ show_str (commit_url cm) @ ''|'' @ take 6 sh
            @ ''>)'' @ [CHR 0x0A] @ show_str (causeMessage ev)))"
proof -
  from assms(1) obtain p r repoName where
    p: "pipeline bd = Some p" and r: "scmRepo p = Some r" and nm: "name r = Some repoName"
    by (rule valid_pipeline)
  note rd = render_full [OF assms(6,8,9,10,11) p r assms(7) assms(12)]
  note cs = notify_dispatch(1) [OF assms(1-5) rd, of slacker token]
  show ?thesis
    by (simp add: cs commitMessage_def cutOff_def)
qed

theorem commit_message_cut_off_witness:
  "map (map att_text \<circ> attachments \<circ> call_payload)
     (calls_of (notify transport_ok ''xoxb-1'' ex_general)) =
   [[Some (replicate 150 (CHR ''a'')
       @ ''... (<https://git.example.com/ui/commit/9af3c2e1|9af3c2>)'' @ [CHR 0x0A]
       @ ''Merged by batman'')]]"
proof -
  have valid: "SCHEMA_BUILD_DATA ex_general"
    by code_simp
  have eff: "effective ex_general =
      Some \<lparr>channels = Some [''#general''], statuses = Some [''FAILURE''],
            minimized = Some False\<rparr>"
    by code_simp
  have ss: "statuses \<lparr>channels = Some [''#general''], statuses = Some [''FAILURE''],
      minimized = Some False\<rparr> = Some [''FAILURE'']"
    by simp
  have s: "status ex_general = Some ''FAILURE''"
    by (simp add: ex_general_def)
  have inc: "''FAILURE'' \<in> set [''FAILURE'']"
    by simp
  have link: "buildLink ex_general = Some ''https://cd.example.com/pipelines/12/builds/345''"
    by (simp add: ex_general_def)
  have b: "build ex_general = Some \<lparr>build_id = Some 345\<rparr>"
    by (simp add: ex_general_def)
  have ev: "event ex_general = Some ex_event"
    by (simp add: ex_general_def)
  have sh: "sha ex_event = Some ''9af3c2e17b''"
    by (simp add: ex_event_def)
  have cm: "commit ex_event = Some ex_commit"
    by (simp add: ex_event_def)
  have m: "commit_message ex_commit = Some (replicate 200 (CHR ''a''))"
    by (simp add: ex_commit_def)
  have full: "minimized \<lparr>channels = Some [''#general''], statuses = Some [''FAILURE''],
      minimized = Some False\<rparr> \<noteq> Some True"
    by simp
  from commit_message_cut_off [OF valid eff ss s inc link b ev sh cm m full,
      of transport_ok "''xoxb-1''"]
  show ?thesis
    by (auto simp: ex_commit_def ex_event_def show_str_def)
qed

subsection \<open>C7: one call to the transport\<close>

text \<open>
  Claim C7 says that every valid event that passes the validation, empty-settings and status
  gates is dispatched by exactly one call to the transport, which gets the token, the whole
  canonical channel list and the rendered message. The code does not do that:
  \<open>ex_minimized_no_event\<close> has every property the input contract requires of a minimized
  notification and passes the three gates, but line 112 reads \<^verbatim>\<open>event.sha\<close> before the
  layout is chosen and raises a \<^verbatim>\<open>TypeError\<close>, so the transport is never called. This is
  the defect of C1 and C2: the schema does not require what lines 111 to 147 read.
\<close>

theorem no_dispatch_without_event:
  "SCHEMA_BUILD_DATA ex_minimized_no_event \<and>
   effective ex_minimized_no_event = Some ex_two_channels \<and>
   js_includes [''SUCCESS''] (status ex_minimized_no_event) \<and>
   calls_of (notify transport_ok ''xoxb-1'' ex_minimized_no_event) = [] \<and>
   raised (notify transport_ok ''xoxb-1'' ex_minimized_no_event) = Some TypeError"
  by code_simp

text \<open>
  Where the defect does not fire, lines 148 to 153 do what the claim describes: an event
  that passes the gates and on which lines 111 to 147 raise nothing is dispatched by one
  call, which passes the token, the channels of the canonical settings as they are (all of
  them, in their order) and the rendered message; what the transport throws is what
  \<open>notify\<close> raises.
\<close>

lemma dispatch_once:
  assumes "SCHEMA_BUILD_DATA bd" and "effective bd = Some so" and "statuses so = Some ss"
    and "status bd = Some s" and "s \<in> set ss" and "has_render_fields bd"
  shows "\<exists>payload. render bd so = Inr payload \<and>
    calls_of (notify slacker token bd) =
      [\<lparr>call_token = token, call_channels = channels so, call_payload = payload\<rparr>] \<and>
    raised (notify slacker token bd) =
      map_option TransportError (slacker token (channels so) payload)"
proof -
  from assms(1) obtain p r n where "pipeline bd = Some p" and "scmRepo p = Some r"
    and "name r = Some n"
    by (rule valid_pipeline)
  with assms(6) obtain payload where r: "render bd so = Inr payload"
    using render_succeeds by blast
  from notify_dispatch [OF assms(1-5) r] r show ?thesis
    by blast
qed

lemma dispatch_once_example:
  "\<exists>payload.
     calls_of (notify transport_down ''xoxb-1'' ex_minimized) =
       [\<lparr>call_token = ''xoxb-1'', call_channels = Some [''#a'', ''#b''],
         call_payload = payload\<rparr>] \<and>
     raised (notify transport_down ''xoxb-1'' ex_minimized) =
       Some (TransportError ''channel_not_found'')"
proof -
  have valid: "SCHEMA_BUILD_DATA ex_minimized"
    by code_simp
  have eff: "effective ex_minimized = Some ex_two_channels"
    by code_simp
  have ss: "statuses ex_two_channels = Some [''SUCCESS'']"
    by (simp add: ex_two_channels_def)
  have s: "status ex_minimized = Some ''SUCCESS''"
    by (simp add: ex_minimized_def)
  have inc: "''SUCCESS'' \<in> set [''SUCCESS'']"
    by simp
  have fields: "has_render_fields ex_minimized"
    by code_simp
  from dispatch_once [OF valid eff ss s inc fields, of transport_down "''xoxb-1''"]
  show ?thesis
    by (auto simp: ex_two_channels_def transport_down_def)
qed

subsection \<open>C8: the two layouts of the message\<close>

text \<open>
  Claim C8 gives the header and the attachment of every event that reaches rendering, in the
  minimized and in the full layout. The code does not produce them for every such event:
  \<open>ex_minimized_empty_event\<close>, whose \<^verbatim>\<open>event\<close> is the empty object, passes the schema and
  the status filter and asks for the minimized layout, which shows nothing of the commit,
  yet line 112 reads \<^verbatim>\<open>event.sha.slice\<close> before the layout is chosen and raises a
  \<^verbatim>\<open>TypeError\<close>: there is no header, no attachment and no call. This is the defect of C1
  and C2: the schema does not require what lines 111 to 147 read.
\<close>

theorem no_message_with_empty_event:
  "SCHEMA_BUILD_DATA ex_minimized_empty_event \<and>
   effective ex_minimized_empty_event = Some ex_two_channels \<and>
   js_includes [''SUCCESS''] (status ex_minimized_empty_event) \<and>
   minimized ex_two_channels = Some True \<and>
   render ex_minimized_empty_event ex_two_channels = Inl TypeError \<and>
   calls_of (notify transport_ok ''xoxb-1'' ex_minimized_empty_event) = [] \<and>
   raised (notify transport_ok ''xoxb-1'' ex_minimized_empty_event) = Some TypeError"
  by code_simp

text \<open>
  Where the defect does not fire, the message is the one the claim describes: for an event
  that reaches rendering and on which lines 111 to 116 raise nothing, the message handed to
  the transport is as follows. The pipeline link is the part of the build link before the first
  \<^verbatim>\<open>/builds\<close>, and the whole build link when there is none. When minimized is true, the header
  is \<^verbatim>\<open><pipelineLink|repoName#jobName> *STATUS*\<close> and the attachment has the colour of the
  status and the single short field \<^verbatim>\<open>Build\<close> with the value \<^verbatim>\<open><buildLink|#buildId>\<close>.
  Otherwise (minimized false or absent) the header is
  \<^verbatim>\<open>*STATUS* emoji <pipelineLink|repoName jobName>\<close> with the emoji of the status, and the
  attachment has the colour of the status, the title \<^verbatim>\<open>#buildId\<close> linked to the build link,
  and the text made of the commit message (cut off as in C6), the first six characters of
  the sha linked to the commit url, a newline and the cause message. A missing
  \<^verbatim>\<open>jobName\<close>, commit url or cause message prints as \<^verbatim>\<open>undefined\<close>.
\<close>

lemma rendered_message_format:
  assumes "SCHEMA_BUILD_DATA bd" and "effective bd = Some so" and "statuses so = Some ss"
    and "status bd = Some s" and "s \<in> set ss"
    and "buildLink bd = Some link" and "build bd = Some b"
    and "event bd = Some ev" and "sha ev = Some sh"
    and "commit ev = Some cm" and "commit_message cm = Some m"
  shows "\<exists>repoName n emoji col payload.
    Option.bind (Option.bind (pipeline bd) scmRepo) name = Some repoName \<and>
    build_id b = Some n \<and>
    map_of STATUSES_MAP s = Some emoji \<and> map_of COLOR_MAP s = Some col \<and>
    (\<exists>rest. link = split_head ''/builds'' link @ rest \<and> (rest = [] \<or> prefix ''/builds'' rest)) \<and>
    (\<forall>i<length (split_head ''/builds'' link). \<not> prefix ''/builds'' (drop i link)) \<and>
    map call_payload (calls_of (notify slacker token bd)) = [payload] \<and>
    (minimized so = Some True \<longrightarrow>
       message payload =
         ''<'' @ split_head ''/builds'' link @ ''|'' @ repoName @ ''#'' @ show_str (jobName bd)
           @ ''> *'' @ s @ ''*'' \<and>
       attachments payload =
         [\<lparr>fallback = [], color = Some col,
           att_fields = Some
             [\<lparr>field_title = ''Build'',
               field_value = ''<'' @ link @ ''|#'' @ show_int n @ ''>'',
               field_short = True\<rparr>],
           title = None, title_link = None, att_text = None\<rparr>]) \<and>
    (minimized so \<noteq> Some True \<longrightarrow>
       message payload =
         ''*'' @ s @ ''* '' @ emoji @ '' <'' @ split_head ''/builds'' link @ ''|'' @ repoName
           @ '' '' @ show_str (jobName bd) @ ''>'' \<and>
       attachments payload =
         [\<lparr>fallback = [], color = Some col, att_fields = None,
           title = Some (''#'' @ show_int n), title_link = Some link,
           att_text = Some
             (commitMessage m @ '' (<'' @ show_str (commit_url cm) @ ''|'' @ take 6 sh
                @ ''>)'' @ [CHR 0x0A] @ show_str (causeMessage ev))\<rparr>])"
proof -
  from assms(1) obtain p r repoName where
    p: "pipeline bd = Some p" and r: "scmRepo p = Some r" and nm: "name r = Some repoName"
    by (rule valid_pipeline)
  from assms(1,7) obtain n where n: "build_id b = Some n"
    by (rule valid_build)
  from assms(1,4) have "SCHEMA_STATUS s"
    by (simp add: SCHEMA_BUILD_DATA_def required_def)
  then obtain emoji col where
    emoji: "map_of STATUSES_MAP s = Some emoji" and col: "map_of COLOR_MAP s = Some col"
    by (rule status_maps)
  have link1: "\<exists>rest. link = split_head ''/builds'' link @ rest \<and>
      (rest = [] \<or> prefix ''/builds'' rest)"
    by (rule split_head_append)
  have link2: "\<forall>i<length (split_head ''/builds'' link). \<not> prefix ''/builds'' (drop i link)"
    by (simp add: split_head_first)
  have path: "Option.bind (Option.bind (pipeline bd) scmRepo) name = Some repoName"
    using p r nm by simp
  show ?thesis
  proof (cases "minimized so = Some True")
    case True
    note rd = render_minimized [OF assms(6,8,9,10,11) p r assms(7) True]
    note cs = notify_dispatch(1) [OF assms(1-5) rd, of slacker token]
    from True path n emoji col link1 link2 show ?thesis
      by (simp add: cs assms(4) nm show_str_def show_num_def)
  next
    case False
    note rd = render_full [OF assms(6,8,9,10,11) p r assms(7) False]
    note cs = notify_dispatch(1) [OF assms(1-5) rd, of slacker token]
    from False path n emoji col link1 link2 show ?thesis
      by (simp add: cs assms(4) nm show_str_def show_num_def)
  qed
qed

lemma rendered_message_format_example:
  "map call_payload (calls_of (notify transport_ok ''xoxb-1'' ex_minimized)) =
     [\<lparr>message = ''<https://cd.example.com/pipelines/12|screwdriver-cd/ui#main> *SUCCESS*'',
       attachments =
         [\<lparr>fallback = [], color = Some ''good'',
           att_fields = Some
             [\<lparr>field_title = ''Build'',
               field_value = ''<https://cd.example.com/pipelines/12/builds/345|#345>'',
               field_short = True\<rparr>],
           title = None, title_link = None, att_text = None\<rparr>]\<rparr>]"
proof -
  have valid: "SCHEMA_BUILD_DATA ex_minimized"
    by code_simp
  have eff: "effective ex_minimized = Some ex_two_channels"
    by code_simp
  have ss: "statuses ex_two_channels = Some [''SUCCESS'']"
    by (simp add: ex_two_channels_def)
  have s: "status ex_minimized = Some ''SUCCESS''"
    by (simp add: ex_minimized_def)
  have inc: "''SUCCESS'' \<in> set [''SUCCESS'']"
    by simp
  have link: "buildLink ex_minimized = Some ''https://cd.example.com/pipelines/12/builds/345''"
    by (simp add: ex_minimized_def ex_general_def)
  have b: "build ex_minimized = Some \<lparr>build_id = Some 345\<rparr>"
    by (simp add: ex_minimized_def ex_general_def)
  have ev: "event ex_minimized = Some ex_event"
    by (simp add: ex_minimized_def ex_general_def)
  have sh: "sha ex_event = Some ''9af3c2e17b''"
    by (simp add: ex_event_def)
  have cm: "commit ex_event = Some ex_commit"
    by (simp add: ex_event_def)
  have m: "commit_message ex_commit = Some (replicate 200 (CHR ''a''))"
    by (simp add: ex_commit_def)
  have pl: "split_head ''/builds'' ''https://cd.example.com/pipelines/12/builds/345'' =
      ''https://cd.example.com/pipelines/12''"
    by code_simp
  have num: "show_int 345 = ''345''"
    by code_simp
  have repo: "pipeline ex_minimized =
      Some \<lparr>scmRepo = Some \<lparr>name = Some ''screwdriver-cd/ui''\<rparr>\<rparr>"
    by (simp add: ex_minimized_def ex_general_def)
  have job: "show_str (jobName ex_minimized) = ''main''"
    by (simp add: ex_minimized_def ex_general_def show_str_def)
  have col: "map_of COLOR_MAP ''SUCCESS'' = Some ''good''"
    by (simp add: COLOR_MAP_def)
  have mini: "minimized ex_two_channels = Some True"
    by (simp add: ex_two_channels_def)
  have "\<exists>payload.
      map call_payload (calls_of (notify transport_ok ''xoxb-1'' ex_minimized)) = [payload] \<and>
      message payload =
        ''<https://cd.example.com/pipelines/12|screwdriver-cd/ui#main> *SUCCESS*'' \<and>
      attachments payload =
        [\<lparr>fallback = [], color = Some ''good'',
          att_fields = Some
            [\<lparr>field_title = ''Build'',
              field_value = ''<https://cd.example.com/pipelines/12/builds/345|#345>'',
              field_short = True\<rparr>],
          title = None, title_link = None, att_text = None\<rparr>]"
    (is "\<exists>payload. ?one payload \<and> ?rest payload")
    using rendered_message_format [OF valid eff ss s inc link b ev sh cm m,
      of transport_ok "''xoxb-1''"]
    by (auto simp: pl num repo job col mini)
  then obtain payload where both: "?one payload \<and> ?rest payload" ..
  from both have one: "?one payload" ..
  from both have "?rest payload" ..
  then have "payload =
     \<lparr>message = ''<https://cd.example.com/pipelines/12|screwdriver-cd/ui#main> *SUCCESS*'',
       attachments =
         [\<lparr>fallback = [], color = Some ''good'',
           att_fields = Some
             [\<lparr>field_title = ''Build'',
               field_value = ''<https://cd.example.com/pipelines/12/builds/345|#345>'',
               field_short = True\<rparr>],
           title = None, title_link = None, att_text = None\<rparr>]\<rparr>"
    by (cases payload) simp
  with one show ?thesis
    by simp
qed

subsection \<open>C9: rendering twice\<close>

text \<open>
  Claim C9: rendering is a function of the event alone, and doing it twice gives the same
  header and the same attachment. In the model \<open>render\<close> is a function that returns no
  state, as lines 111 to 151 assign to nothing but local constants. What remains to be shown
  is that the one assignment \<open>notify\<close> does make, to \<^verbatim>\<open>settings.slack\<close>, does not change
  what is rendered: a second run on the event as the first run left it hands the same calls,
  with the same header and attachment, to the transport (whatever the transport answered
  the first time), raises the same error when the transport behaves the same, and leaves the
  event as it is.
\<close>

theorem render_idempotent:
  "render bd so = render (state_after (notify slacker token bd)) so \<and>
   calls_of (notify slacker' token (state_after (notify slacker token bd)))
     = calls_of (notify slacker token bd) \<and>
   state_after (notify slacker' token (state_after (notify slacker token bd)))
     = state_after (notify slacker token bd) \<and>
   raised (notify slacker token (state_after (notify slacker token bd)))
     = raised (notify slacker token bd)"
proof (cases "SCHEMA_BUILD_DATA bd")
  case False
  then have "state_after (notify slacker token bd) = bd"
    by (simp add: notify_invalid state_after_def)
  with False show ?thesis
    by (simp add: notify_invalid state_after_def calls_of_def raised_def)
next
  case True
  then obtain st st1 so' ss where st: "settings bd = Some st"
    and norm: "normalize_settings st = Inr st1"
    and can: "canonical st1 = Some so'" and ss: "statuses so' = Some ss"
    by (rule valid_normalizes)
  define bd1 where "bd1 = bd\<lparr>settings := Some st1\<rparr>"
  have post: "state_after (notify slacker token bd) = bd1"
    unfolding bd1_def using True st norm by (rule notify_state)
  have valid1: "SCHEMA_BUILD_DATA bd1"
    unfolding bd1_def using True st norm by (rule valid_after_normalize)
  have st1: "settings bd1 = Some st1"
    by (simp add: bd1_def)
  have norm1: "normalize_settings st1 = Inr st1"
    using norm by (rule normalize_idem)
  have same1: "bd1\<lparr>settings := Some st1\<rparr> = bd1" and status1: "status bd1 = status bd"
    by (simp_all add: bd1_def)
  have first: "notify f token bd =
     (if \<not> js_includes ss (status bd) then (bd1, [], None)
      else case render bd1 so' of
          Inl e \<Rightarrow> (bd1, [], Some e)
        | Inr payload \<Rightarrow>
            (bd1,
             [\<lparr>call_token = token, call_channels = channels so', call_payload = payload\<rparr>],
             map_option TransportError (f token (channels so') payload)))" for f
    unfolding bd1_def by (rule notify_valid [OF True st norm can ss])
  have second: "notify f token bd1 =
     (if \<not> js_includes ss (status bd) then (bd1, [], None)
      else case render bd1 so' of
          Inl e \<Rightarrow> (bd1, [], Some e)
        | Inr payload \<Rightarrow>
            (bd1,
             [\<lparr>call_token = token, call_channels = channels so', call_payload = payload\<rparr>],
             map_option TransportError (f token (channels so') payload)))" for f
    using notify_valid [OF valid1 st1 norm1 can ss, of f token]
    by (simp only: same1 status1)
  have "render bd so = render bd1 so"
    by (simp add: bd1_def render_ignores_settings)
  then show ?thesis
    unfolding post
    by (simp add: first second calls_of_def state_after_def raised_def split: sum.splits)
qed

theorem render_idempotent_witness:
  "calls_of (notify transport_down ''xoxb-1''
      (state_after (notify transport_ok ''xoxb-1'' ex_general)))
     = calls_of (notify transport_ok ''xoxb-1'' ex_general) \<and>
   length (calls_of (notify transport_ok ''xoxb-1'' ex_general)) = 1"
proof -
  have "length (calls_of (notify transport_ok ''xoxb-1'' ex_general)) = 1"
    by code_simp
  with render_idempotent [of ex_general _ transport_ok "''xoxb-1''" transport_down]
  show ?thesis
    by simp
qed

subsection \<open>C10: an empty list of statuses\<close>

text \<open>
  Claim C10: a structured \<^verbatim>\<open>settings.slack\<close> whose \<^verbatim>\<open>statuses\<close> is the empty list is
  accepted by the schema (the empty list satisfies \<^verbatim>\<open>SCHEMA_STATUSES\<close>, so the object is
  accepted whenever its channels are), is its own canonical form (the default statuses
  replace a missing list only, not an empty one), and makes \<open>notify\<close> call the transport for
  no status at all, without an error.
\<close>

theorem empty_statuses_opt_out:
  assumes "settings bd = Some st" and "slack st = Some (SlackObject so)"
    and "statuses so = Some []"
  shows "SCHEMA_STATUSES [] \<and>
    (SCHEMA_SLACK_OBJECT so \<longleftrightarrow> optional SCHEMA_SLACK_CHANNELS (channels so)) \<and>
    effective bd = Some so \<and>
    calls_of (notify slacker token bd) = [] \<and> raised (notify slacker token bd) = None"
proof -
  have sch: "SCHEMA_STATUSES []"
    by (simp add: SCHEMA_STATUSES_def)
  with assms(3)
  have obj: "SCHEMA_SLACK_OBJECT so \<longleftrightarrow> optional SCHEMA_SLACK_CHANNELS (channels so)"
    by (simp add: SCHEMA_SLACK_OBJECT_def optional_def joi_any_def split: option.splits)
  from assms(2,3) have norm: "normalize_settings st = Inr st"
    by (simp add: normalize_object)
  from assms(2) have can: "canonical st = Some so"
    by (simp add: canonical_def)
  from assms(1) norm can have eff: "effective bd = Some so"
    by (simp add: effective_def)
  have "calls_of (notify slacker token bd) = [] \<and> raised (notify slacker token bd) = None"
  proof (cases "SCHEMA_BUILD_DATA bd")
    case False
    then show ?thesis by (simp add: notify_invalid calls_of_def raised_def)
  next
    case True
    have "\<not> js_includes [] (status bd)"
      by (simp add: js_includes_def split: option.splits)
    with notify_valid [OF True assms(1) norm can assms(3)] show ?thesis
      by (simp add: calls_of_def raised_def)
  qed
  with sch obj eff show ?thesis by simp
qed

theorem empty_statuses_opt_out_witness:
  "SCHEMA_BUILD_DATA ex_opt_out \<and> status ex_opt_out = Some ''FAILURE'' \<and>
   calls_of (notify transport_ok ''xoxb-1'' ex_opt_out) = [] \<and>
   raised (notify transport_ok ''xoxb-1'' ex_opt_out) = None"
proof -
  have valid: "SCHEMA_BUILD_DATA ex_opt_out"
    by code_simp
  have s: "status ex_opt_out = Some ''FAILURE''"
    by (simp add: ex_opt_out_def ex_general_def)
  have st: "settings ex_opt_out =
      Some \<lparr>slack = Some (SlackObject
               \<lparr>channels = Some [''#a''], statuses = Some [], minimized = None\<rparr>),
            other_keys = []\<rparr>"
    by (simp add: ex_opt_out_def)
  from empty_statuses_opt_out [OF st, of "\<lparr>channels = Some [''#a''], statuses = Some [],
      minimized = None\<rparr>" transport_ok "''xoxb-1''"] valid s
  show ?thesis
    by simp
qed

end
